theory Spec2Isabelle
  imports Complex_Main
begin

section \<open>PyChamber: the measurement collection \<open>NetworkModel\<close>\<close>

text \<open>
  \<^verbatim>\<open>pychamber/network_model.py\<close> defines \<open>NetworkModel\<close>, a subclass of the
  \<open>NetworkSet\<close> container of scikit-rf. A \<open>NetworkModel\<close> holds the sweeps of one
  scan, each tagged with the positioner pose at which it was taken, and answers the
  plotting layer's queries: \<open>freqs\<close>, \<open>azimuths\<close>, \<open>elevations\<close>, \<open>mags\<close>, and
  \<open>append\<close>.

  Angles are Python floats. Only their equality and their truth value are used, and on
  every float that is a number these agree with the reals (\<open>0.0\<close> and \<open>-0.0\<close> are both
  zero and both falsy), so angles are \<^typ>\<open>real\<close> here. Decibel values are computed
  in floating point by the library; they are idealised over the reals.
\<close>

subsection \<open>Errors and arrays\<close>

datatype error = IndexError | ValueError

text \<open>
  A numpy array, as far as this module looks at it: its shape and its elements in
  row-major order.
\<close>

record ndarray =
  shape :: "nat list"
  elems :: "real list"

text \<open>\<^verbatim>\<open>np.array(xs)\<close> of a flat Python list of numbers: a one-dimensional array.\<close>

definition np_array :: "real list \<Rightarrow> ndarray" where
  "np_array xs = \<lparr>shape = [length xs], elems = xs\<rparr>"

text \<open>\<^verbatim>\<open>a.reshape(-1, 1)\<close>: one column, as many rows as there are elements.\<close>

definition reshape_column :: "ndarray \<Rightarrow> ndarray" where
  "reshape_column a = \<lparr>shape = [length (elems a), 1], elems = elems a\<rparr>"

text \<open>
  \<^verbatim>\<open>np.array(as)\<close> of a Python list of arrays: the arrays are stacked along a new
  first axis. An empty list gives the empty one-dimensional array; arrays of different
  shapes do not stack.
\<close>

definition np_array_stack :: "ndarray list \<Rightarrow> error + ndarray" where
  "np_array_stack as =
     (case as of
        [] \<Rightarrow> Inr (np_array [])
      | a # _ \<Rightarrow>
          if list_all (\<lambda>b. shape b = shape a) as
          then Inr \<lparr>shape = length as # shape a, elems = concat (map elems as)\<rparr>
          else Inl ValueError)"

subsection \<open>Measurement records\<close>

text \<open>
  One sweep at one pose (a scikit-rf \<open>Network\<close>): the frequency grid
  \<^verbatim>\<open>frequency.f\<close>, the complex response parallel to it, and the dictionary
  \<^verbatim>\<open>params\<close>, whose two entries \<^verbatim>\<open>'azimuth'\<close> and \<^verbatim>\<open>'elevation'\<close> are fields here:
  every record carries both, so \<^verbatim>\<open>n.params['azimuth']\<close> cannot miss its key.
\<close>

record network =
  frequency_f :: "real list"
  response :: "complex list"
  params_azimuth :: real
  params_elevation :: real

type_synonym NetworkModel = "network list"

text \<open>
  Modelled from the spec: the constructor of the library container, which is not part of
  this repository's sources. It wraps the list of records it is given, in order.
\<close>

definition NetworkModel :: "network list \<Rightarrow> NetworkModel" where
  "NetworkModel ntwk_set = ntwk_set"

text \<open>\<^verbatim>\<open>n.params[k]\<close>, seen as a lookup that also says which keys exist.\<close>

definition params :: "network \<Rightarrow> string \<Rightarrow> real option" where
  "params n k =
     (if k = ''azimuth'' then Some (params_azimuth n)
      else if k = ''elevation'' then Some (params_elevation n)
      else None)"

text \<open>
  Modelled from the spec: the selection of the library container (\<^verbatim>\<open>NetworkSet.sel\<close>),
  which is not part of this repository's sources. Given a partial key, a record matches
  iff every key present in the partial key equals the record's corresponding field
  exactly; with no key present every record matches. The matching records are returned
  in stored order. The partial key is a Python dictionary; here it is the list of its
  items.
\<close>

definition matches :: "(string \<times> real) list \<Rightarrow> network \<Rightarrow> bool" where
  "matches indexers n = list_all (\<lambda>kv. params n (fst kv) = Some (snd kv)) indexers"

definition sel :: "NetworkModel \<Rightarrow> (string \<times> real) list \<Rightarrow> NetworkModel" where
  "sel self indexers = filter (matches indexers) self"

text \<open>\<^verbatim>\<open>xs[0]\<close>: the first element, or \<open>IndexError\<close> on an empty sequence.\<close>

definition getitem0 :: "'a list \<Rightarrow> error + 'a" where
  "getitem0 xs = (case xs of [] \<Rightarrow> Inl IndexError | x # _ \<Rightarrow> Inr x)"

text \<open>
  Modelled from the spec: the decibel magnitude \<open>20 * log10 |z|\<close> of a complex value, and
  the values of the library attribute \<^verbatim>\<open>s_db\<close> of a record, its per-frequency decibel
  magnitudes.
\<close>

definition db :: "complex \<Rightarrow> real" where
  "db z = 20 * log 10 (cmod z)"

definition s_db :: "network \<Rightarrow> real list" where
  "s_db n = map db (response n)"

text \<open>
  The attribute \<^verbatim>\<open>s_db\<close> as the library lays it out: one value per frequency and
  per pair of ports. A record here holds one response per frequency (one port), so the
  array is \<open>nfreq \<times> 1 \<times> 1\<close> and its elements are those of \<open>s_db\<close>.
\<close>

definition s_db_array :: "network \<Rightarrow> ndarray" where
  "s_db_array n = \<lparr>shape = [length (response n), 1, 1], elems = s_db n\<rparr>"

text \<open>
  Modelled from the spec: the lookup of a requested frequency in a record's grid, which
  is library code outside this repository's sources. The lookup snaps to the nearest
  bin and raises nothing: \<open>find_nearest_index grid v\<close> is the first index whose grid
  value is closest to \<open>v\<close>. \<open>nearest_from\<close> is its loop: the best index and distance
  so far, the current index, and the rest of the grid.
\<close>

fun nearest_from :: "real \<Rightarrow> nat \<Rightarrow> real \<Rightarrow> nat \<Rightarrow> real list \<Rightarrow> nat" where
  "nearest_from v best bd i [] = best"
| "nearest_from v best bd i (g # gs) =
     (if \<bar>g - v\<bar> < bd then nearest_from v i \<bar>g - v\<bar> (Suc i) gs
      else nearest_from v best bd (Suc i) gs)"

definition find_nearest_index :: "real list \<Rightarrow> real \<Rightarrow> nat" where
  "find_nearest_index grid v =
     (case grid of [] \<Rightarrow> 0 | g # gs \<Rightarrow> nearest_from v 0 \<bar>g - v\<bar> 1 gs)"

text \<open>
  The library parses the label \<open>freq\<close> (such as \<^verbatim>\<open>'2ghz'\<close>) into a frequency; the
  parser is the parameter \<open>hz\<close>. \<open>nearest_bin hz\<close> is then the lookup of a label in a
  grid.
\<close>

definition nearest_bin :: "(string \<Rightarrow> real) \<Rightarrow> string \<Rightarrow> real list \<Rightarrow> nat" where
  "nearest_bin hz freq grid = find_nearest_index grid (hz freq)"

text \<open>
  \<^verbatim>\<open>n[freq]\<close>: the record cut down to the bin \<open>i\<close> that the lookup \<open>index_of\<close> finds
  for \<open>freq\<close>, that is the slice \<^verbatim>\<open>[i:i+1]\<close> of the grid and of the response. The
  result is again a record, at the same pose, and has the attribute \<^verbatim>\<open>s_db\<close>.
\<close>

definition getitem_freq :: "(string \<Rightarrow> real list \<Rightarrow> nat) \<Rightarrow> string \<Rightarrow> network \<Rightarrow> network" where
  "getitem_freq index_of freq n =
     (let i = index_of freq (frequency_f n)
      in n\<lparr>frequency_f := take 1 (drop i (frequency_f n)),
            response := take 1 (drop i (response n))\<rparr>)"

subsection \<open>The queries\<close>

definition freqs :: "NetworkModel \<Rightarrow> error + ndarray" where
  "freqs self =
     (if length self = 0 then Inr (np_array [])
      else (case getitem0 self of
              Inl e \<Rightarrow> Inl e
            | Inr n \<Rightarrow> Inr (np_array (frequency_f n))))"

definition azimuths :: "NetworkModel \<Rightarrow> error + ndarray" where
  "azimuths self =
     (if length self = 0 then Inr (np_array [])
      else Inr (reshape_column
             (np_array (map params_azimuth (sel self [(''elevation'', 0)])))))"

definition elevations :: "NetworkModel \<Rightarrow> error + ndarray" where
  "elevations self =
     (if length self = 0 then Inr (np_array [])
      else Inr (reshape_column
             (np_array (map params_elevation (sel self [(''azimuth'', 0)])))))"

text \<open>
  Python's truth value of an optional float (\<^verbatim>\<open>if azimuth:\<close>) and of an optional
  string (\<^verbatim>\<open>if freq:\<close>): \<open>None\<close>, zero and the empty string are falsy. Each test
  returns the value when it is truthy, so that the branch it guards can use it.
\<close>

definition truthy_float :: "real option \<Rightarrow> real option" where
  "truthy_float x = (case x of None \<Rightarrow> None | Some v \<Rightarrow> if v \<noteq> 0 then Some v else None)"

definition truthy_str :: "string option \<Rightarrow> string option" where
  "truthy_str x = (case x of None \<Rightarrow> None | Some v \<Rightarrow> if v \<noteq> [] then Some v else None)"

text \<open>
  Lines 48 to 52 of \<open>mags\<close>: the dictionary \<open>params\<close> starts empty and receives a key
  for each angle that is truthy. The two keys differ, so storing a key adds an item.
\<close>

definition mags_params :: "real option \<Rightarrow> real option \<Rightarrow> (string \<times> real) list" where
  "mags_params azimuth elevation =
     (let params = [];
          params = (case truthy_float azimuth of
                      Some a \<Rightarrow> params @ [(''azimuth'', a)]
                    | None \<Rightarrow> params);
          params = (case truthy_float elevation of
                      Some e \<Rightarrow> params @ [(''elevation'', e)]
                    | None \<Rightarrow> params)
      in params)"

definition mags ::
  "(string \<Rightarrow> real list \<Rightarrow> nat) \<Rightarrow> NetworkModel \<Rightarrow> string option \<Rightarrow> real option \<Rightarrow> real option
     \<Rightarrow> error + ndarray" where
  "mags index_of self freq azimuth elevation =
     (if length self = 0 then Inr (np_array [])
      else
        let params = mags_params azimuth elevation
        in (case truthy_str freq of
              Some f \<Rightarrow>
                np_array_stack
                  (map (\<lambda>n. s_db_array (getitem_freq index_of f n)) (sel self params))
            | None \<Rightarrow>
                (case getitem0 (sel self params) of
                   Inl e \<Rightarrow> Inl e
                 | Inr n \<Rightarrow> Inr (reshape_column (s_db_array n)))))"

subsection \<open>Appending a measurement\<close>

text \<open>
  \<open>append\<close> builds a new Python list, mutates that list and wraps it in a new
  \<open>NetworkModel\<close>. To see what it does to the receiver, objects live in a store: a
  reference is an index into the store, a cell holds the records of a list or of a
  collection, and a new object takes the next free index.
\<close>

type_synonym store = "network list list"

definition append_network :: "store \<Rightarrow> nat \<Rightarrow> network \<Rightarrow> store \<times> nat" where
  "append_network h self ntwk =
     (let temp = length h;
          h = h @ [sel (h ! self) []];
          h = h[temp := (h ! temp) @ [ntwk]];
          result = length h;
          h = h @ [NetworkModel (h ! temp)]
      in (h, result))"

subsection \<open>Example scans\<close>

text \<open>A sweep over the grid 1 GHz, 2 GHz at the pose \<open>(az, el)\<close>.\<close>

definition sweep :: "real \<Rightarrow> real \<Rightarrow> complex list \<Rightarrow> network" where
  "sweep az el resp =
     \<lparr>frequency_f = [1000000000, 2000000000], response = resp,
      params_azimuth = az, params_elevation = el\<rparr>"

definition scan3 :: NetworkModel where
  "scan3 = [sweep 0 0 [1, 10], sweep 10 0 [10, 1], sweep 0 10 [1, 1]]"

text \<open>
  Elevations -10, 0, 10 crossed with azimuths -20, 0, 20, scanned row by row
  (\<open>scan9\<close>) and column by column (\<open>scan9_azimuth_major\<close>).
\<close>

definition scan9 :: NetworkModel where
  "scan9 =
     [sweep (-20) (-10) [1, 1], sweep 0 (-10) [1, 1], sweep 20 (-10) [1, 1],
      sweep (-20) 0 [1, 1], sweep 0 0 [1, 1], sweep 20 0 [1, 1],
      sweep (-20) 10 [1, 1], sweep 0 10 [1, 1], sweep 20 10 [1, 1]]"

definition scan9_azimuth_major :: NetworkModel where
  "scan9_azimuth_major =
     [sweep (-20) (-10) [1, 1], sweep (-20) 0 [1, 1], sweep (-20) 10 [1, 1],
      sweep 0 (-10) [1, 1], sweep 0 0 [1, 1], sweep 0 10 [1, 1],
      sweep 20 (-10) [1, 1], sweep 20 0 [1, 1], sweep 20 10 [1, 1]]"

text \<open>Four sweeps, two of them at elevation 10, and a parser for two labels.\<close>

definition scan4 :: NetworkModel where
  "scan4 = [sweep 0 0 [1, 10], sweep 10 0 [10, 1], sweep 0 10 [1, 1], sweep 10 10 [1, 10]]"

definition ghz_label :: "string \<Rightarrow> real" where
  "ghz_label freq =
     (if freq = ''1ghz'' then 1000000000 else if freq = ''2ghz'' then 2000000000 else 0)"

text \<open>Two sweeps taken at the same pose, as after a retry of the positioner.\<close>

definition retried_pose :: NetworkModel where
  "retried_pose = [sweep 10 0 [1, 10], sweep 10 0 [10, 1]]"

text \<open>The pose of a record.\<close>

definition pose :: "network \<Rightarrow> real \<times> real" where
  "pose n = (params_azimuth n, params_elevation n)"

section \<open>Properties\<close>

subsection \<open>Helper facts\<close>

lemma sel_no_key: "sel self [] = self"
  by (simp add: sel_def matches_def)

lemma mags_params_zero_azimuth: "mags_params (Some 0) elevation = mags_params None elevation"
  by (simp add: mags_params_def truthy_float_def)

lemma mags_params_zero_elevation: "mags_params azimuth (Some 0) = mags_params azimuth None"
  by (simp add: mags_params_def truthy_float_def)

lemma matches_elevation: "matches [(''elevation'', e)] n = (params_elevation n = e)"
  by (simp add: matches_def params_def)

lemma matches_azimuth: "matches [(''azimuth'', a)] n = (params_azimuth n = a)"
  by (simp add: matches_def params_def)

lemma matches_pose:
  "matches [(''azimuth'', a), (''elevation'', e)] n =
     (params_azimuth n = a \<and> params_elevation n = e)"
  by (simp add: matches_def params_def)

lemma sel_elevation_zero:
  "sel self [(''elevation'', 0)] = filter (\<lambda>n. params_elevation n = 0) self"
  unfolding sel_def by (rule filter_cong) (simp_all add: matches_elevation)

lemma sel_azimuth_zero:
  "sel self [(''azimuth'', 0)] = filter (\<lambda>n. params_azimuth n = 0) self"
  unfolding sel_def by (rule filter_cong) (simp_all add: matches_azimuth)

text \<open>The filter that \<open>mags\<close> builds selects by the angles that are given and not zero.\<close>

lemma matches_mags_params:
  "matches (mags_params azimuth elevation) n =
     (azimuth \<in> {None, Some 0, Some (params_azimuth n)} \<and>
      elevation \<in> {None, Some 0, Some (params_elevation n)})"
  by (cases azimuth; cases elevation)
    (auto simp add: mags_params_def truthy_float_def matches_def params_def)

lemma sel_mags_params:
  "sel self (mags_params azimuth elevation) =
     filter (\<lambda>n. azimuth \<in> {None, Some 0, Some (params_azimuth n)} \<and>
                 elevation \<in> {None, Some 0, Some (params_elevation n)}) self"
  unfolding sel_def by (rule filter_cong) (simp_all add: matches_mags_params)

text \<open>The nearest-bin loop returns an index it has seen, and none is closer.\<close>

lemma nearest_from_less:
  "best < i \<Longrightarrow> nearest_from v best bd i gs < i + length gs"
proof (induction gs arbitrary: best bd i)
  case Nil
  then show ?case by simp
next
  case (Cons g gs)
  have "nearest_from v i \<bar>g - v\<bar> (Suc i) gs < Suc i + length gs"
    by (rule Cons.IH) simp
  moreover have "nearest_from v best bd (Suc i) gs < Suc i + length gs"
    by (rule Cons.IH) (use Cons.prems in simp)
  ultimately show ?case by simp
qed

lemma nearest_from_nearest:
  assumes "length xs = i" and "best < i" and "bd = \<bar>xs ! best - v\<bar>"
    and "\<forall>j<i. bd \<le> \<bar>xs ! j - v\<bar>"
  shows "\<forall>j<length (xs @ gs).
           \<bar>(xs @ gs) ! nearest_from v best bd i gs - v\<bar> \<le> \<bar>(xs @ gs) ! j - v\<bar>"
  using assms
proof (induction gs arbitrary: xs best bd i)
  case Nil
  then show ?case by simp
next
  case (Cons g gs)
  have len: "length (xs @ [g]) = Suc i" using Cons.prems(1) by simp
  show ?case
  proof (cases "\<bar>g - v\<bar> < bd")
    case True
    have "\<forall>j<Suc i. \<bar>g - v\<bar> \<le> \<bar>(xs @ [g]) ! j - v\<bar>"
      using Cons.prems True by (auto simp add: less_Suc_eq nth_append)
    moreover have "\<bar>g - v\<bar> = \<bar>(xs @ [g]) ! i - v\<bar>"
      using Cons.prems(1) by (simp add: nth_append)
    ultimately have "\<forall>j<length ((xs @ [g]) @ gs).
        \<bar>((xs @ [g]) @ gs) ! nearest_from v i (abs (g - v)) (Suc i) gs - v\<bar>
          \<le> \<bar>((xs @ [g]) @ gs) ! j - v\<bar>"
      using Cons.IH [of "xs @ [g]" "Suc i" i "\<bar>g - v\<bar>"] len by simp
    with True show ?thesis by simp
  next
    case False
    have "\<forall>j<Suc i. bd \<le> \<bar>(xs @ [g]) ! j - v\<bar>"
      using Cons.prems False by (auto simp add: less_Suc_eq nth_append)
    moreover have "bd = \<bar>(xs @ [g]) ! best - v\<bar>"
      using Cons.prems by (simp add: nth_append)
    ultimately have "\<forall>j<length ((xs @ [g]) @ gs).
        \<bar>((xs @ [g]) @ gs) ! nearest_from v best bd (Suc i) gs - v\<bar>
          \<le> \<bar>((xs @ [g]) @ gs) ! j - v\<bar>"
      using Cons.IH [of "xs @ [g]" "Suc i" best bd] len Cons.prems(2) by simp
    with False show ?thesis by simp
  qed
qed

lemma find_nearest_index_less:
  "grid \<noteq> [] \<Longrightarrow> find_nearest_index grid v < length grid"
  using nearest_from_less [of 0 1 v _ "tl grid"]
  by (cases grid) (simp_all add: find_nearest_index_def)

lemma find_nearest_index_nearest:
  "j < length grid \<Longrightarrow>
   \<bar>grid ! find_nearest_index grid v - v\<bar> \<le> \<bar>grid ! j - v\<bar>"
proof (cases grid)
  case Nil
  then show "j < length grid \<Longrightarrow> ?thesis" by simp
next
  case (Cons g gs)
  assume "j < length grid"
  with Cons nearest_from_nearest [of "[g]" 1 0 "\<bar>g - v\<bar>" v gs]
  show ?thesis by (simp add: find_nearest_index_def)
qed

text \<open>
  On a record with a non-empty grid and a response parallel to it, the array of the
  record cut at the nearest bin holds the one decibel value of that bin.
\<close>

lemma s_db_array_getitem_freq:
  assumes "frequency_f n \<noteq> []" and "length (response n) = length (frequency_f n)"
  shows "s_db_array (getitem_freq (nearest_bin hz) freq n) =
           \<lparr>shape = [1, 1, 1],
            elems = [db (response n ! find_nearest_index (frequency_f n) (hz freq))]\<rparr>"
proof -
  have "find_nearest_index (frequency_f n) (hz freq) < length (response n)"
    using assms find_nearest_index_less [of "frequency_f n" "hz freq"] by simp
  then have "take 1 (drop (find_nearest_index (frequency_f n) (hz freq)) (response n)) =
      [response n ! find_nearest_index (frequency_f n) (hz freq)]"
    by (simp add: Cons_nth_drop_Suc [symmetric])
  then show ?thesis
    by (simp add: s_db_array_def getitem_freq_def nearest_bin_def s_db_def Let_def)
qed

text \<open>Stacking \<open>K\<close> arrays of shape \<open>1 \<times> 1 \<times> 1\<close>.\<close>

lemma np_array_stack_singletons:
  "np_array_stack (map (\<lambda>n. \<lparr>shape = [1, 1, 1], elems = [g n]\<rparr>) ms) =
     Inr \<lparr>shape = (if ms = [] then [0] else [length ms, 1, 1, 1]), elems = map g ms\<rparr>"
proof -
  have "concat (map (\<lambda>n. [g n]) ms) = map g ms"
    by (induction ms) simp_all
  then show ?thesis
    by (cases ms) (simp_all add: np_array_stack_def np_array_def list_all_iff comp_def)
qed

text \<open>The three steps of \<open>append\<close> at once: two new cells, the old ones untouched.\<close>

lemma append_network_eq:
  "append_network h self ntwk =
     (h @ [(h ! self) @ [ntwk], (h ! self) @ [ntwk]], Suc (length h))"
  by (simp add: append_network_def Let_def sel_no_key NetworkModel_def nth_append)

text \<open>Records at pairwise different poses have different azimuths along one elevation.\<close>

lemma distinct_azimuths_of_cut:
  assumes "distinct (map pose self)"
  shows "distinct (map params_azimuth (filter (\<lambda>n. params_elevation n = e) self))"
proof -
  have inj: "inj_on pose (set self)" and d: "distinct self"
    using assms by (simp_all add: distinct_map)
  have "inj_on params_azimuth (set (filter (\<lambda>n. params_elevation n = e) self))"
  proof (rule inj_onI)
    fix x y
    assume x: "x \<in> set (filter (\<lambda>n. params_elevation n = e) self)"
      and y: "y \<in> set (filter (\<lambda>n. params_elevation n = e) self)"
      and eq: "params_azimuth x = params_azimuth y"
    then have "pose x = pose y" by (simp add: pose_def)
    with inj x y show "x = y" by (auto dest: inj_onD)
  qed
  with d show ?thesis by (simp add: distinct_map)
qed

lemmas eval_defs = sweep_def sel_def matches_def params_def mags_def mags_params_def
  truthy_float_def truthy_str_def getitem0_def s_db_array_def s_db_def db_def np_array_def
  reshape_column_def np_array_stack_def getitem_freq_def

subsection \<open>Claims\<close>

text \<open>
  C1. For every collection and every frequency argument, \<open>mags\<close> called with azimuth 0
  gives the same result as \<open>mags\<close> called with the azimuth omitted, and likewise for
  elevation 0: the angle 0 is falsy, so it adds no key to the filter.
\<close>

theorem mags_zero_angle_is_omitted:
  "mags index_of self freq (Some 0) elevation = mags index_of self freq None elevation \<and>
   mags index_of self freq azimuth (Some 0) = mags index_of self freq azimuth None \<and>
   mags_params (Some 0) (Some 0) = []"
  by (simp add: mags_def mags_params_zero_azimuth mags_params_zero_elevation)
    (simp add: mags_params_def truthy_float_def)

text \<open>
  C2, as amended. Take a non-empty collection, a frequency label that is supplied and
  not empty, and the \<open>K\<close> records \<open>ms\<close>, in stored order, that have the requested
  azimuth and the requested elevation (an angle that is omitted or 0 requests nothing);
  each of them has a non-empty grid and a response parallel to it. Then \<open>mags\<close> returns
  an array with one entry per matching record along its first axis: its shape is
  \<open>K \<times> 1 \<times> 1 \<times> 1\<close> (the empty one-dimensional array when \<open>K = 0\<close>), and its \<open>i\<close>-th value
  is \<open>20 * log10 |response|\<close> of the \<open>i\<close>-th matching record at the bin of its grid
  nearest to the requested frequency.
\<close>

theorem mags_at_frequency:
  assumes "self \<noteq> []" and "freq \<noteq> []"
    and "ms = filter (\<lambda>n. azimuth \<in> {None, Some 0, Some (params_azimuth n)} \<and>
                          elevation \<in> {None, Some 0, Some (params_elevation n)}) self"
    and "list_all (\<lambda>n. frequency_f n \<noteq> [] \<and>
                        length (response n) = length (frequency_f n)) ms"
  shows "\<exists>r. mags (nearest_bin hz) self (Some freq) azimuth elevation = Inr r \<and>
           shape r = (if ms = [] then [0] else [length ms, 1, 1, 1]) \<and>
           length (elems r) = length ms \<and>
           (\<forall>i<length ms.
              find_nearest_index (frequency_f (ms ! i)) (hz freq) < length (frequency_f (ms ! i)) \<and>
              (\<forall>j<length (frequency_f (ms ! i)).
                 \<bar>frequency_f (ms ! i) ! find_nearest_index (frequency_f (ms ! i)) (hz freq)
                    - hz freq\<bar> \<le> \<bar>frequency_f (ms ! i) ! j - hz freq\<bar>) \<and>
              elems r ! i =
                20 * log 10 (cmod (response (ms ! i) !
                  find_nearest_index (frequency_f (ms ! i)) (hz freq))))"
proof -
  let ?val = "\<lambda>n. db (response n ! find_nearest_index (frequency_f n) (hz freq))"
  have sel: "sel self (mags_params azimuth elevation) = ms"
    using assms(3) by (simp add: sel_mags_params)
  have cut: "map (\<lambda>n. s_db_array (getitem_freq (nearest_bin hz) freq n)) ms =
      map (\<lambda>n. \<lparr>shape = [1, 1, 1], elems = [?val n]\<rparr>) ms"
    using assms(4) by (intro map_cong refl s_db_array_getitem_freq) (auto simp add: list_all_iff)
  have stack: "np_array_stack (map (\<lambda>n. s_db_array (getitem_freq (nearest_bin hz) freq n)) ms) =
      Inr \<lparr>shape = (if ms = [] then [0] else [length ms, 1, 1, 1]), elems = map ?val ms\<rparr>"
    unfolding cut by (rule np_array_stack_singletons)
  have "mags (nearest_bin hz) self (Some freq) azimuth elevation =
      np_array_stack (map (\<lambda>n. s_db_array (getitem_freq (nearest_bin hz) freq n))
        (sel self (mags_params azimuth elevation)))"
    using assms(1,2) by (simp add: mags_def truthy_str_def)
  then have res: "mags (nearest_bin hz) self (Some freq) azimuth elevation =
      Inr \<lparr>shape = (if ms = [] then [0] else [length ms, 1, 1, 1]), elems = map ?val ms\<rparr>"
    unfolding sel by (simp only: stack)
  have grid: "frequency_f (ms ! i) \<noteq> []" if "i < length ms" for i
    using assms(4) that by (simp add: list_all_length)
  show ?thesis
    unfolding res
    using grid find_nearest_index_less find_nearest_index_nearest
    by (auto simp add: db_def)
qed

theorem mags_at_frequency_witness:
  "scan4 \<noteq> [] \<and> ''2ghz'' \<noteq> [] \<and>
   filter (\<lambda>n. None \<in> {None, Some 0, Some (params_azimuth n)} \<and>
               Some 10 \<in> {None, Some 0, Some (params_elevation n)}) scan4 =
     [sweep 0 10 [1, 1], sweep 10 10 [1, 10]] \<and>
   list_all (\<lambda>n. frequency_f n \<noteq> [] \<and> length (response n) = length (frequency_f n))
     [sweep 0 10 [1, 1], sweep 10 10 [1, 10]] \<and>
   (\<exists>r. mags (nearest_bin ghz_label) scan4 (Some ''2ghz'') None (Some 10) = Inr r \<and>
        shape r = [2, 1, 1, 1] \<and> elems r ! 0 = 0 \<and> elems r ! 1 = 20)"
proof -
  have ne: "scan4 \<noteq> []" by (simp add: scan4_def)
  have lab: "''2ghz'' \<noteq> []" by simp
  have ms: "[sweep 0 10 [1, 1], sweep 10 10 [1, 10]] =
      filter (\<lambda>n. None \<in> {None, Some 0, Some (params_azimuth n)} \<and>
                  Some 10 \<in> {None, Some 0, Some (params_elevation n)}) scan4"
    by (simp add: scan4_def sweep_def)
  have wf: "list_all (\<lambda>n. frequency_f n \<noteq> [] \<and> length (response n) = length (frequency_f n))
      [sweep 0 10 [1, 1], sweep 10 10 [1, 10]]"
    by (simp add: sweep_def)
  have bin: "find_nearest_index [1000000000, 2000000000] (ghz_label ''2ghz'') = 1"
    by (simp add: find_nearest_index_def ghz_label_def)
  from mags_at_frequency [OF ne lab ms wf, of ghz_label]
  obtain r where r: "mags (nearest_bin ghz_label) scan4 (Some ''2ghz'') None (Some 10) = Inr r"
    "shape r = [2, 1, 1, 1]"
    "\<forall>i<2. elems r ! i =
       20 * log 10 (cmod (response ([sweep 0 10 [1, 1], sweep 10 10 [1, 10]] ! i) !
         find_nearest_index (frequency_f ([sweep 0 10 [1, 1], sweep 10 10 [1, 10]] ! i))
           (ghz_label ''2ghz'')))"
    by auto
  from r(3) have "elems r ! 0 = 0"
    by (simp add: sweep_def bin)
  moreover from r(3) have "elems r ! 1 = 20"
    by (simp add: sweep_def bin)
  ultimately show ?thesis using r(1,2) ne ms [symmetric] wf by simp
qed

text \<open>
  The claim as first stated asks for a one-dimensional array of length \<open>K\<close>. With two
  matching records the array has four axes.
\<close>

theorem mags_at_frequency_one_dimensional_counterexample:
  "scan4 \<noteq> [] \<and>
   sel scan4 (mags_params None (Some 10)) = [sweep 0 10 [1, 1], sweep 10 10 [1, 10]] \<and>
   mags (nearest_bin ghz_label) scan4 (Some ''2ghz'') None (Some 10) =
     Inr \<lparr>shape = [2, 1, 1, 1], elems = [0, 20]\<rparr> \<and>
   map_sum id (length \<circ> shape) (mags (nearest_bin ghz_label) scan4 (Some ''2ghz'') None (Some 10))
     = Inr 4"
  by (simp add: scan4_def eval_defs nearest_bin_def find_nearest_index_def ghz_label_def
      list_all_iff)

text \<open>
  C3. For a non-empty collection, with the frequency omitted and an angular filter whose
  first match is the record \<open>m\<close>, \<open>mags\<close> returns the decibel magnitudes of \<open>m\<close> alone,
  one per frequency, as a column with as many rows as the frequency grid of \<open>m\<close> has
  points. The response of \<open>m\<close> is parallel to its grid.
\<close>

theorem mags_over_frequency:
  assumes "self \<noteq> []"
    and "sel self (mags_params azimuth elevation) = m # ms"
    and "length (response m) = length (frequency_f m)"
  shows "mags index_of self None azimuth elevation =
           Inr \<lparr>shape = [length (frequency_f m), 1],
                elems = map (\<lambda>z. 20 * log 10 (cmod z)) (response m)\<rparr>"
  using assms
  by (simp add: mags_def truthy_str_def getitem0_def reshape_column_def s_db_array_def
      s_db_def db_def)

theorem mags_over_frequency_witness:
  "scan3 \<noteq> [] \<and>
   sel scan3 (mags_params (Some 10) None) = [sweep 10 0 [10, 1]] \<and>
   length (response (sweep 10 0 [10, 1])) = length (frequency_f (sweep 10 0 [10, 1])) \<and>
   mags (\<lambda>_ _. 0) scan3 None (Some 10) None = Inr \<lparr>shape = [2, 1], elems = [20, 0]\<rparr>"
proof -
  have ne: "scan3 \<noteq> []" by (simp add: scan3_def)
  have ms: "sel scan3 (mags_params (Some 10) None) = sweep 10 0 [10, 1] # []"
    by (simp add: scan3_def eval_defs)
  have len: "length (response (sweep 10 0 [10, 1])) = length (frequency_f (sweep 10 0 [10, 1]))"
    by (simp add: sweep_def)
  show ?thesis
    using mags_over_frequency [OF ne ms len, of "\<lambda>_ _. 0"] ne ms len
    by (simp add: sweep_def)
qed

text \<open>
  C4. For a collection \<open>C\<close> (the cell \<open>self\<close> of the store) with \<open>N\<close> records and a
  measurement \<open>m\<close>, \<open>append\<close> returns a new collection holding the \<open>N\<close> records of \<open>C\<close>
  in order followed by \<open>m\<close>, \<open>N + 1\<close> records in all; \<open>C\<close> still holds its \<open>N\<close>
  records, unchanged, as does every other object that existed before the call.
\<close>

theorem append_network_persistent:
  assumes "self < length h" and "append_network h self m = (h', r)"
  shows "h' ! r = (h ! self) @ [m] \<and> length (h' ! r) = length (h ! self) + 1 \<and>
         take (length (h ! self)) (h' ! r) = h ! self \<and>
         h' ! self = h ! self \<and> length (h' ! self) = length (h ! self) \<and>
         r \<noteq> self \<and> take (length h) h' = h"
  using assms by (auto simp add: append_network_eq nth_append)

theorem append_network_persistent_witness:
  "(0::nat) < length [scan3] \<and>
   append_network [scan3] 0 (sweep 10 10 [1, 1]) =
     ([scan3, scan3 @ [sweep 10 10 [1, 1]], scan3 @ [sweep 10 10 [1, 1]]], 2) \<and>
   [scan3, scan3 @ [sweep 10 10 [1, 1]], scan3 @ [sweep 10 10 [1, 1]]] ! 2
     = scan3 @ [sweep 10 10 [1, 1]] \<and>
   length (scan3 @ [sweep 10 10 [1, 1]]) = 4 \<and>
   [scan3, scan3 @ [sweep 10 10 [1, 1]], scan3 @ [sweep 10 10 [1, 1]]] ! 0 = scan3 \<and>
   length scan3 = 3"
proof -
  have a: "(0::nat) < length [scan3]" by simp
  have b: "append_network [scan3] 0 (sweep 10 10 [1, 1]) =
     ([scan3, scan3 @ [sweep 10 10 [1, 1]], scan3 @ [sweep 10 10 [1, 1]]], 2)"
    by (simp add: append_network_def Let_def sel_no_key NetworkModel_def)
  show ?thesis
    using append_network_persistent [OF a b] a b by (simp add: scan3_def)
qed

text \<open>
  C5. On a freshly constructed, empty collection, \<open>freqs\<close>, \<open>azimuths\<close>, \<open>elevations\<close>
  and \<open>mags\<close> with any arguments return the empty array; none of them raises.
\<close>

theorem empty_collection_queries:
  "freqs (NetworkModel []) = Inr \<lparr>shape = [0], elems = []\<rparr> \<and>
   azimuths (NetworkModel []) = Inr \<lparr>shape = [0], elems = []\<rparr> \<and>
   elevations (NetworkModel []) = Inr \<lparr>shape = [0], elems = []\<rparr> \<and>
   mags index_of (NetworkModel []) freq azimuth elevation = Inr \<lparr>shape = [0], elems = []\<rparr>"
  by (simp add: NetworkModel_def freqs_def azimuths_def elevations_def mags_def np_array_def)

text \<open>
  C6, as amended. For a non-empty collection, \<open>azimuths\<close> returns the azimuth of each
  record whose elevation is exactly 0, one value per such record, in stored order, as an
  \<open>N\<close>-by-1 column. The values are pairwise different when no two stored records share a
  pose. When no record has elevation exactly 0, the axis is empty.
\<close>

theorem azimuths_elevation_zero_cut:
  assumes "self \<noteq> []"
  shows "azimuths self =
           Inr \<lparr>shape = [length (filter (\<lambda>n. params_elevation n = 0) self), 1],
                elems = map params_azimuth (filter (\<lambda>n. params_elevation n = 0) self)\<rparr> \<and>
         (distinct (map pose self) \<longrightarrow>
            map_sum id (distinct \<circ> elems) (azimuths self) = Inr True) \<and>
         (list_all (\<lambda>n. params_elevation n \<noteq> 0) self \<longrightarrow>
            azimuths self = Inr \<lparr>shape = [0, 1], elems = []\<rparr>)"
proof -
  have cut: "azimuths self =
      Inr \<lparr>shape = [length (filter (\<lambda>n. params_elevation n = 0) self), 1],
           elems = map params_azimuth (filter (\<lambda>n. params_elevation n = 0) self)\<rparr>"
    using assms
    by (simp add: azimuths_def sel_elevation_zero reshape_column_def np_array_def)
  have none: "filter (\<lambda>n. params_elevation n = 0) self = []"
    if "list_all (\<lambda>n. params_elevation n \<noteq> 0) self"
    using that by (simp add: filter_empty_conv list_all_iff)
  have "map_sum id (distinct \<circ> elems) (azimuths self) = Inr True"
    if "distinct (map pose self)"
    using distinct_azimuths_of_cut [OF that, of 0] by (simp add: cut)
  with cut none show ?thesis by simp
qed

theorem azimuths_elevation_zero_cut_witness:
  "scan3 \<noteq> [] \<and> distinct (map pose scan3) \<and>
   azimuths scan3 = Inr \<lparr>shape = [2, 1], elems = [0, 10]\<rparr> \<and>
   map_sum id (distinct \<circ> elems) (azimuths scan3) = Inr True \<and>
   list_all (\<lambda>n. params_elevation n \<noteq> 0) [sweep 0 10 [1, 1]] \<and>
   azimuths [sweep 0 10 [1, 1]] = Inr \<lparr>shape = [0, 1], elems = []\<rparr>"
proof -
  have a: "scan3 \<noteq> []" by (simp add: scan3_def)
  have b: "[sweep 0 10 [1, 1]] \<noteq> []" by simp
  have c: "list_all (\<lambda>n. params_elevation n \<noteq> 0) [sweep 0 10 [1, 1]]"
    by (simp add: sweep_def)
  have d: "distinct (map pose scan3)"
    by (simp add: scan3_def sweep_def pose_def)
  show ?thesis
    using azimuths_elevation_zero_cut [OF a] azimuths_elevation_zero_cut [OF b] a c d
    by (simp add: scan3_def sweep_def)
qed

text \<open>
  The claim as first stated asks for distinct azimuth values on every non-empty
  collection. Two sweeps stored at the pose (10, 0) give the azimuth 10 twice.
\<close>

theorem azimuths_distinct_counterexample:
  "retried_pose \<noteq> [] \<and>
   azimuths retried_pose = Inr \<lparr>shape = [2, 1], elems = [10, 10]\<rparr> \<and>
   map_sum id (distinct \<circ> elems) (azimuths retried_pose) = Inr False"
  by (simp add: retried_pose_def azimuths_def eval_defs)

text \<open>
  C7. For a non-empty collection, \<open>elevations\<close> returns the elevation of each record
  whose azimuth is exactly 0, in stored order, as a column. On the nine records at
  elevations -10, 0, 10 crossed with azimuths -20, 0, 20, in either scan order, it
  returns exactly -10, 0, 10.
\<close>

theorem elevations_azimuth_zero_cut:
  "(self \<noteq> [] \<longrightarrow>
      elevations self =
        Inr \<lparr>shape = [length (filter (\<lambda>n. params_azimuth n = 0) self), 1],
             elems = map params_elevation (filter (\<lambda>n. params_azimuth n = 0) self)\<rparr>) \<and>
   elevations scan9 = Inr \<lparr>shape = [3, 1], elems = [-10, 0, 10]\<rparr> \<and>
   elevations scan9_azimuth_major = Inr \<lparr>shape = [3, 1], elems = [-10, 0, 10]\<rparr>"
proof -
  have cut: "elevations c =
      Inr \<lparr>shape = [length (filter (\<lambda>n. params_azimuth n = 0) c), 1],
           elems = map params_elevation (filter (\<lambda>n. params_azimuth n = 0) c)\<rparr>"
    if "c \<noteq> []" for c
    using that
    by (simp add: elevations_def sel_azimuth_zero reshape_column_def np_array_def)
  have "elevations scan9 = Inr \<lparr>shape = [3, 1], elems = [-10, 0, 10]\<rparr>"
    by (simp add: scan9_def elevations_def sel_azimuth_zero sweep_def np_array_def
        reshape_column_def)
  moreover
  have "elevations scan9_azimuth_major = Inr \<lparr>shape = [3, 1], elems = [-10, 0, 10]\<rparr>"
    by (simp add: scan9_azimuth_major_def elevations_def sel_azimuth_zero sweep_def
        np_array_def reshape_column_def)
  ultimately show ?thesis using cut by simp
qed

theorem elevations_azimuth_zero_cut_witness:
  "scan3 \<noteq> [] \<and> elevations scan3 = Inr \<lparr>shape = [2, 1], elems = [0, 10]\<rparr>"
proof -
  have a: "scan3 \<noteq> []" by (simp add: scan3_def)
  show ?thesis
    using elevations_azimuth_zero_cut [of scan3] a by (simp add: scan3_def sweep_def)
qed

text \<open>
  C8. When the collection (the cell \<open>self\<close>, with \<open>N\<close> records) already holds a record
  at the pose \<open>(a, e)\<close>, at index \<open>i\<close>, appending a measurement \<open>m\<close> at the same pose
  keeps both: the result has \<open>N + 1\<close> records, the earlier record is still at index \<open>i\<close>
  and \<open>m\<close> is at index \<open>N\<close>, so selecting the pose finds one record more than before,
  at least two.
\<close>

theorem append_network_keeps_duplicate_pose:
  assumes "self < length h" and "i < length (h ! self)"
    and "params_azimuth ((h ! self) ! i) = a" and "params_elevation ((h ! self) ! i) = e"
    and "params_azimuth m = a" and "params_elevation m = e"
    and "append_network h self m = (h', r)"
  shows "length (h' ! r) = length (h ! self) + 1 \<and>
         (h' ! r) ! i = (h ! self) ! i \<and>
         (h' ! r) ! length (h ! self) = m \<and>
         i \<noteq> length (h ! self) \<and>
         sel (h' ! r) [(''azimuth'', a), (''elevation'', e)] =
           sel (h ! self) [(''azimuth'', a), (''elevation'', e)] @ [m] \<and>
         2 \<le> length (sel (h' ! r) [(''azimuth'', a), (''elevation'', e)])"
proof -
  let ?key = "[(''azimuth'', a), (''elevation'', e)]"
  from assms(7) have h': "h' ! r = (h ! self) @ [m]"
    by (auto simp add: append_network_eq nth_append)
  have new: "matches ?key m"
    using assms(5,6) by (simp add: matches_pose)
  have "(h ! self) ! i \<in> set (h ! self)"
    using assms(2) by simp
  moreover have "matches ?key ((h ! self) ! i)"
    using assms(3,4) by (simp add: matches_pose)
  ultimately have "sel (h ! self) ?key \<noteq> []"
    unfolding sel_def by (auto simp add: filter_empty_conv)
  then have old: "1 \<le> length (sel (h ! self) ?key)"
    by (cases "sel (h ! self) ?key") simp_all
  have both: "sel (h' ! r) ?key = sel (h ! self) ?key @ [m]"
    unfolding h' sel_def using new by simp
  show ?thesis
    using assms(2) old both by (simp add: h' nth_append)
qed

theorem append_network_keeps_duplicate_pose_witness:
  "(0::nat) < length [scan3] \<and> (1::nat) < length ([scan3] ! 0) \<and>
   params_azimuth (([scan3] ! 0) ! 1) = 10 \<and> params_elevation (([scan3] ! 0) ! 1) = 0 \<and>
   params_azimuth (sweep 10 0 [1, 1]) = 10 \<and> params_elevation (sweep 10 0 [1, 1]) = 0 \<and>
   append_network [scan3] 0 (sweep 10 0 [1, 1]) =
     ([scan3, scan3 @ [sweep 10 0 [1, 1]], scan3 @ [sweep 10 0 [1, 1]]], 2) \<and>
   sel (scan3 @ [sweep 10 0 [1, 1]]) [(''azimuth'', 10), (''elevation'', 0)] =
     [sweep 10 0 [10, 1], sweep 10 0 [1, 1]]"
proof -
  have a: "(0::nat) < length [scan3]" by simp
  have b: "(1::nat) < length ([scan3] ! 0)" by (simp add: scan3_def)
  have c: "params_azimuth (([scan3] ! 0) ! 1) = 10" "params_elevation (([scan3] ! 0) ! 1) = 0"
    "params_azimuth (sweep 10 0 [1, 1]) = 10" "params_elevation (sweep 10 0 [1, 1]) = 0"
    by (simp_all add: scan3_def sweep_def)
  have d: "append_network [scan3] 0 (sweep 10 0 [1, 1]) =
     ([scan3, scan3 @ [sweep 10 0 [1, 1]], scan3 @ [sweep 10 0 [1, 1]]], 2)"
    by (simp add: append_network_def Let_def sel_no_key NetworkModel_def)
  have e: "sel scan3 [(''azimuth'', 10), (''elevation'', 0)] = [sweep 10 0 [10, 1]]"
    by (simp add: scan3_def eval_defs)
  show ?thesis
    using append_network_keeps_duplicate_pose [OF a b c d] a b c d e by simp
qed

text \<open>
  C9. There are a non-empty collection and a non-zero azimuth that no stored record has,
  for which the two branches of \<open>mags\<close> differ: with a frequency supplied the result is
  the empty array, with the frequency omitted taking element 0 of the empty selection
  raises \<open>IndexError\<close>.
\<close>

theorem mags_no_match_asymmetry:
  "\<exists>self azimuth.
     self \<noteq> [] \<and> azimuth \<noteq> 0 \<and> sel self (mags_params (Some azimuth) None) = [] \<and>
     mags index_of self (Some ''1ghz'') (Some azimuth) None = Inr \<lparr>shape = [0], elems = []\<rparr> \<and>
     mags index_of self None (Some azimuth) None = Inl IndexError"
proof -
  have "scan3 \<noteq> [] \<and> (45::real) \<noteq> 0 \<and> sel scan3 (mags_params (Some 45) None) = [] \<and>
     mags index_of scan3 (Some ''1ghz'') (Some 45) None = Inr \<lparr>shape = [0], elems = []\<rparr> \<and>
     mags index_of scan3 None (Some 45) None = Inl IndexError"
    by (simp add: scan3_def eval_defs)
  then show ?thesis by blast
qed

text \<open>
  C10. For a non-empty collection, \<open>mags\<close> called with the empty string as frequency
  gives the same result as \<open>mags\<close> called with the frequency omitted: the empty label is
  falsy, no frequency is looked up, and the result is the full decibel column of the
  first matching record (or \<open>IndexError\<close> when no record matches).
\<close>

theorem mags_empty_label_is_omitted:
  assumes "self \<noteq> []"
  shows "mags index_of self (Some []) azimuth elevation =
           mags index_of self None azimuth elevation \<and>
         mags index_of self (Some []) azimuth elevation =
           (case sel self (mags_params azimuth elevation) of
              [] \<Rightarrow> Inl IndexError
            | m # ms \<Rightarrow> Inr \<lparr>shape = [length (response m), 1], elems = s_db m\<rparr>)"
  using assms
  by (simp add: mags_def truthy_str_def getitem0_def reshape_column_def s_db_array_def s_db_def
      split: list.split)

theorem mags_empty_label_is_omitted_witness:
  "scan3 \<noteq> [] \<and>
   mags (\<lambda>_ _. 0) scan3 (Some []) None (Some 10) = mags (\<lambda>_ _. 0) scan3 None None (Some 10) \<and>
   mags (\<lambda>_ _. 0) scan3 (Some []) None (Some 10) = Inr \<lparr>shape = [2, 1], elems = [0, 0]\<rparr>"
proof -
  have a: "scan3 \<noteq> []" by (simp add: scan3_def)
  show ?thesis
    using mags_empty_label_is_omitted [OF a, of "\<lambda>_ _. 0" None "Some 10"] a
    by (simp add: scan3_def eval_defs)
qed

end
